theory Spec2Isabelle
  imports Complex_Main "HOL-Library.AList"
begin

section \<open>Construction material calculator: the estimator of app.py\<close>

text \<open>
  The embedding follows \<^verbatim>\<open>src/app.py\<close>. Conventions:
  \<^item> Python numbers (\<^verbatim>\<open>float\<close> and \<^verbatim>\<open>int\<close> mixed by true division and
    multiplication) are exact rationals, type \<^typ>\<open>rat\<close>. The binary64 rounding of
    each operation is not modelled: every number below is the exact value of the
    expression the source writes.
  \<^item> A \<^verbatim>\<open>dict\<close> is an association list in insertion order; \<^verbatim>\<open>d[k] = v\<close> is
    \<^const>\<open>AList.update\<close> (replace in place, or append a new key at the end),
    \<^verbatim>\<open>d.get(k)\<close> and \<^verbatim>\<open>k in d\<close> are \<^const>\<open>map_of\<close>.
  \<^item> The two module-level tables are read through an explicit argument \<open>g\<close>, the
    module state; \<open>module_globals\<close> is the value lines 12-43 give it.
  \<^item> An exception is a value of a sum type.
\<close>

subsection \<open>Data\<close>

datatype error = ZeroDivisionError

text \<open>An entry of \<^verbatim>\<open>MATERIAL_RATES\<close>: \<^verbatim>\<open>{"rate": 400, "unit": "per bag"}\<close>.\<close>

record material_rate =
  rate :: int
  unit :: string

text \<open>
  An entry of \<^verbatim>\<open>cost_breakdown\<close> (lines 67-72): the keys \<^verbatim>\<open>quantity\<close>,
  \<^verbatim>\<open>rate\<close>, \<^verbatim>\<open>unit\<close>, \<^verbatim>\<open>cost\<close>; \<^verbatim>\<open>rate\<close> and \<^verbatim>\<open>unit\<close> are copied from
  the rate entry.
\<close>

record line_item = material_rate +
  quantity :: rat
  cost :: rat

record module_state =
  MATERIAL_RATES :: "(string \<times> material_rate) list"
  CONSTRUCTION_COEFFICIENTS :: "(string \<times> (string \<times> rat) list) list"

text \<open>Lines 12-43: the tables as the module defines them.\<close>

definition module_globals :: module_state where
  "module_globals = \<lparr>
     MATERIAL_RATES = [
       (''cement'', \<lparr>rate = 400, unit = ''per bag''\<rparr>),
       (''steel'', \<lparr>rate = 65000, unit = ''per MT''\<rparr>),
       (''bricks'', \<lparr>rate = 7000, unit = ''per 1000 nos''\<rparr>),
       (''sand'', \<lparr>rate = 1500, unit = ''per cum''\<rparr>),
       (''aggregate_20mm'', \<lparr>rate = 1200, unit = ''per cum''\<rparr>),
       (''aggregate_10mm'', \<lparr>rate = 1300, unit = ''per cum''\<rparr>)],
     CONSTRUCTION_COEFFICIENTS = [
       (''RCC Slab (4 inch)'',
          [(''cement'', 4.5), (''steel'', 0.08), (''sand'', 0.25), (''aggregate_20mm'', 0.5)]),
       (''Brick Wall (9 inch)'',
          [(''cement'', 3.0), (''bricks'', 1350), (''sand'', 0.35)]),
       (''Plaster (12mm)'',
          [(''cement'', 1.5), (''sand'', 0.15)]),
       (''Flooring (IPS)'',
          [(''cement'', 2.0), (''sand'', 0.18), (''aggregate_10mm'', 0.15)])]
   \<rparr>"

subsection \<open>Python's round\<close>

text \<open>
  \<^verbatim>\<open>round(x, ndigits)\<close> rounds to the nearest multiple of \<open>10 ^ -ndigits\<close>, a tie
  going to the even neighbour. Python decides the tie on the exact value of the float;
  here it is decided on the exact rational, so the two agree wherever the rational is
  the value of the float (2811.375 is, 0.015 is not).
\<close>

definition round_half_even :: "rat \<Rightarrow> int" where
  "round_half_even x =
     (let f = \<lfloor>x\<rfloor>; d = x - of_int f
      in if d < 1 / 2 then f
         else if 1 / 2 < d then f + 1
         else if even f then f else f + 1)"

definition py_round :: "rat \<Rightarrow> nat \<Rightarrow> rat" where
  "py_round x ndigits = of_int (round_half_even (x * 10 ^ ndigits)) / 10 ^ ndigits"

subsection \<open>calculate_materials (lines 45-56)\<close>

definition calculate_materials ::
  "module_state \<Rightarrow> rat \<Rightarrow> rat \<Rightarrow> string \<Rightarrow> (string \<times> rat) list \<times> rat" where
  "calculate_materials g length_ft width_ft construction_type =
     (let area = length_ft * width_ft;
          area_in_100sqft = area / 100;
          coefficients =
            (case map_of (CONSTRUCTION_COEFFICIENTS g) construction_type of
               None \<Rightarrow> []
             | Some c \<Rightarrow> c);
          materials =
            fold (\<lambda>(material, quantity_per_100sqft) materials.
                    AList.update material (quantity_per_100sqft * area_in_100sqft) materials)
                 coefficients []
      in (materials, area))"

subsection \<open>calculate_cost (lines 58-75)\<close>

text \<open>Line 66, for a material that has a rate: \<^verbatim>\<open>cost = quantity * rate\<close>.\<close>

definition line_cost :: "material_rate \<Rightarrow> rat \<Rightarrow> rat" where
  "line_cost entry quantity' = quantity' * of_int (rate entry)"

text \<open>Lines 67-72: the entry stored in the breakdown, both numbers rounded.\<close>

definition breakdown_entry :: "material_rate \<Rightarrow> rat \<Rightarrow> line_item" where
  "breakdown_entry entry quantity' =
     \<lparr>rate = rate entry, unit = unit entry,
      quantity = py_round quantity' 2,
      cost = py_round (line_cost entry quantity') 2\<rparr>"

text \<open>
  The loop of lines 63-73 over \<^verbatim>\<open>materials.items()\<close>, with the two variables it
  updates, \<^verbatim>\<open>cost_breakdown\<close> and \<^verbatim>\<open>total_cost\<close>.
\<close>

fun calculate_cost_loop ::
  "module_state \<Rightarrow> (string \<times> rat) list \<Rightarrow> (string \<times> line_item) list \<times> rat
     \<Rightarrow> (string \<times> line_item) list \<times> rat" where
  "calculate_cost_loop g [] (cost_breakdown, total_cost) = (cost_breakdown, total_cost)"
| "calculate_cost_loop g ((material, quantity') # rest) (cost_breakdown, total_cost) =
     (case map_of (MATERIAL_RATES g) material of
        None \<Rightarrow> calculate_cost_loop g rest (cost_breakdown, total_cost)
      | Some entry \<Rightarrow>
          calculate_cost_loop g rest
            (AList.update material (breakdown_entry entry quantity') cost_breakdown,
             total_cost + line_cost entry quantity'))"

definition calculate_cost ::
  "module_state \<Rightarrow> (string \<times> rat) list \<Rightarrow> (string \<times> line_item) list \<times> rat" where
  "calculate_cost g materials = calculate_cost_loop g materials ([], 0)"

subsection \<open>The calculate handler (lines 130-142, 193, 198, 217)\<close>

text \<open>
  Line 135, the wastage comprehension
  \<^verbatim>\<open>{k: v * (1 + wastage_factor/100) for k, v in materials.items()}\<close>:
  the keys of a dict are distinct, so the new dict has the same keys in the same order.
  \<^verbatim>\<open>wastage_factor\<close> is the integer of the slider.
\<close>

definition apply_wastage :: "int \<Rightarrow> (string \<times> rat) list \<Rightarrow> (string \<times> rat) list" where
  "apply_wastage wastage_factor materials =
     map (\<lambda>(k, v). (k, v * (1 + of_int wastage_factor / 100))) materials"

text \<open>The variables of the handler after line 142.\<close>

record calculation =
  area :: rat
  materials :: "(string \<times> rat) list"
  cost_breakdown :: "(string \<times> line_item) list"
  material_cost :: rat
  labor_cost :: rat
  total_cost :: rat

definition run_calculation ::
  "module_state \<Rightarrow> rat \<Rightarrow> rat \<Rightarrow> string \<Rightarrow> bool \<Rightarrow> int \<Rightarrow> calculation" where
  "run_calculation g length_ft width_ft construction_type include_labor wastage_factor =
     (let (materials0, area') = calculate_materials g length_ft width_ft construction_type;
          materials' = apply_wastage wastage_factor materials0;
          (cost_breakdown', material_cost') = calculate_cost g materials';
          labor_cost' = (if include_labor then material_cost' * 0.3 else 0);
          total_cost' = material_cost' + labor_cost'
      in \<lparr>area = area', materials = materials', cost_breakdown = cost_breakdown',
          material_cost = material_cost', labor_cost = labor_cost',
          total_cost = total_cost'\<rparr>)"

text \<open>
  Lines 193 and 217 divide \<^verbatim>\<open>total_cost/area\<close>; Python raises
  \<^verbatim>\<open>ZeroDivisionError\<close> when the area is zero. The estimate is the calculation
  together with this quotient.
\<close>

record estimate_result =
  costs :: calculation
  cost_per_sqft :: rat

definition estimate ::
  "module_state \<Rightarrow> rat \<Rightarrow> rat \<Rightarrow> string \<Rightarrow> bool \<Rightarrow> int \<Rightarrow> error + estimate_result" where
  "estimate g length_ft width_ft construction_type include_labor wastage_factor =
     (let c = run_calculation g length_ft width_ft construction_type include_labor wastage_factor
      in if area c = 0 then Inl ZeroDivisionError
         else Inr \<lparr>costs = c, cost_per_sqft = total_cost c / area c\<rparr>)"

text \<open>
  \<^verbatim>\<open>get_ai_suggestions\<close> (lines 77-97). The body of the \<^verbatim>\<open>try\<close> (the prompt
  built from the three arguments, the call of the remote model, the read of
  \<^verbatim>\<open>response.text\<close>) is the parameter \<open>generate\<close>: \<open>Inr text\<close> when it returns,
  \<open>Inl msg\<close> when it raises an \<^verbatim>\<open>Exception\<close> \<open>e\<close> with \<open>str(e) = msg\<close>.
\<close>

definition get_ai_suggestions ::
  "(rat \<Rightarrow> string \<Rightarrow> rat \<Rightarrow> string + string) \<Rightarrow> rat \<Rightarrow> string \<Rightarrow> rat \<Rightarrow> string" where
  "get_ai_suggestions generate area' construction_type budget =
     (case generate area' construction_type budget of
        Inr text \<Rightarrow> text
      | Inl e \<Rightarrow> ''AI suggestions unavailable: '' @ e)"

text \<open>
  One run of the handler: the estimate, then (line 198) the suggestions for it. The
  handler assigns to neither table, so the module state it leaves is the one it found.
\<close>

definition on_calculate ::
  "(rat \<Rightarrow> string \<Rightarrow> rat \<Rightarrow> string + string) \<Rightarrow> module_state
     \<Rightarrow> rat \<Rightarrow> rat \<Rightarrow> string \<Rightarrow> bool \<Rightarrow> int
     \<Rightarrow> (error + estimate_result \<times> string) \<times> module_state" where
  "on_calculate generate g length_ft width_ft construction_type include_labor wastage_factor =
     ((case estimate g length_ft width_ft construction_type include_labor wastage_factor of
         Inl err \<Rightarrow> Inl err
       | Inr r \<Rightarrow>
           Inr (r, get_ai_suggestions generate (area (costs r)) construction_type
                     (total_cost (costs r)))),
      g)"

subsection \<open>What the loop of calculate_cost computes\<close>

text \<open>
  The values the variable \<^verbatim>\<open>cost\<close> takes at line 66, one for each material of the
  map that has a rate, in the order of the map.
\<close>

definition line_costs :: "module_state \<Rightarrow> (string \<times> rat) list \<Rightarrow> (string \<times> rat) list" where
  "line_costs g materials' =
     List.map_filter
       (\<lambda>(material, quantity').
          map_option (\<lambda>entry. (material, line_cost entry quantity'))
            (map_of (MATERIAL_RATES g) material))
       materials'"

text \<open>The entries the loop stores, for a map whose keys are distinct.\<close>

definition breakdown_items :: "module_state \<Rightarrow> (string \<times> rat) list \<Rightarrow> (string \<times> line_item) list" where
  "breakdown_items g ms = List.map_filter
       (\<lambda>(material, quantity').
          map_option (\<lambda>entry. (material, breakdown_entry entry quantity'))
            (map_of (MATERIAL_RATES g) material)) ms"

section \<open>Properties\<close>

subsection \<open>Dict updates and the cost loop\<close>

lemma update_fresh: "k \<notin> fst ` set al \<Longrightarrow> AList.update k v al = al @ [(k, v)]"
  by (induction al) auto

lemma loop_filter:
  "calculate_cost_loop g ms acc =
   calculate_cost_loop g (filter (\<lambda>(material, q). map_of (MATERIAL_RATES g) material \<noteq> None) ms) acc"
  by (induction g ms acc rule: calculate_cost_loop.induct) (auto split: option.splits)

lemma loop_total:
  "snd (calculate_cost_loop g ms (bd, t)) = t + sum_list (map snd (line_costs g ms))"
  by (induction g ms "(bd, t)" arbitrary: bd t rule: calculate_cost_loop.induct)
     (auto simp: line_costs_def split: option.splits)

lemma loop_keys:
  "fst ` set (fst (calculate_cost_loop g ms (bd, t))) =
   fst ` set bd \<union> {m \<in> fst ` set ms. map_of (MATERIAL_RATES g) m \<noteq> None}"
  by (induction g ms "(bd, t)" arbitrary: bd t rule: calculate_cost_loop.induct)
     (auto simp: AList.dom_update split: option.splits)

lemma loop_breakdown:
  "distinct (map fst ms) \<Longrightarrow> fst ` set ms \<inter> fst ` set bd = {} \<Longrightarrow>
   fst (calculate_cost_loop g ms (bd, t)) = bd @ breakdown_items g ms"
proof (induction g ms "(bd, t)" arbitrary: bd t rule: calculate_cost_loop.induct)
  case (1 g cost_breakdown total_cost)
  then show ?case by (simp add: breakdown_items_def)
next
  case (2 g material quantity' rest cost_breakdown total_cost)
  show ?case
  proof (cases "map_of (MATERIAL_RATES g) material")
    case None
    with 2 show ?thesis by (auto simp: breakdown_items_def)
  next
    case (Some entry)
    from "2.prems" have fresh: "material \<notin> fst ` set cost_breakdown" by auto
    from "2.prems" have d: "distinct (map fst rest)" and nk: "material \<notin> fst ` set rest" by auto
    let ?bd = "AList.update material (breakdown_entry entry quantity') cost_breakdown"
    from "2.prems" nk have disj: "fst ` set rest \<inter> fst ` set ?bd = {}"
      by (auto simp: AList.dom_update)
    from "2.hyps"(2) [OF Some d disj]
    show ?thesis
      using Some by (simp add: update_fresh [OF fresh] breakdown_items_def)
  qed
qed

subsection \<open>The error of rounding to two decimals\<close>

lemma round_half_even_error: "\<bar>of_int (round_half_even x) - x\<bar> \<le> 1 / 2"
proof -
  have "of_int \<lfloor>x\<rfloor> \<le> x" "x < of_int \<lfloor>x\<rfloor> + 1" by linarith+
  then show ?thesis
    by (auto simp: round_half_even_def Let_def)
qed

lemma py_round_2_error: "\<bar>py_round x 2 - x\<bar> \<le> 1 / 200"
proof -
  have "\<bar>of_int (round_half_even (x * 100)) - x * 100\<bar> \<le> 1 / 2"
    by (rule round_half_even_error)
  then show ?thesis
    by (simp add: py_round_def abs_le_iff field_simps)
qed

lemma sum_list_round_error:
  "\<bar>sum_list (map (\<lambda>(m, c). py_round c 2) xs) - sum_list (map snd xs)\<bar> \<le> of_nat (length xs) / 200"
proof (induction xs)
  case Nil
  then show ?case by simp
next
  case (Cons x xs)
  obtain m c where x: "x = (m, c)" by (cases x)
  let ?S = "sum_list (map (\<lambda>(m, c). py_round c 2) xs)" and ?T = "sum_list (map snd xs)"
  have step: "\<bar>py_round c 2 - c\<bar> \<le> 1 / 200" by (rule py_round_2_error)
  have "\<bar>(py_round c 2 + ?S) - (c + ?T)\<bar> \<le> \<bar>py_round c 2 - c\<bar> + \<bar>?S - ?T\<bar>"
    by linarith
  also have "\<dots> \<le> 1 / 200 + of_nat (length xs) / 200"
    using step Cons.IH by linarith
  finally show ?case
    by (simp add: x add_divide_distrib)
qed

subsection \<open>The breakdown of a map with distinct keys\<close>

lemma breakdown_items_costs:
  "map (cost \<circ> snd) (breakdown_items g ms) = map (\<lambda>(m, c). py_round c 2) (line_costs g ms)"
  by (induction ms)
     (auto simp: breakdown_items_def line_costs_def breakdown_entry_def
           split: option.splits)

lemma breakdown_items_keys:
  "map fst (breakdown_items g ms) = map fst (line_costs g ms)"
  by (induction ms)
     (auto simp: breakdown_items_def line_costs_def split: option.splits)

lemma calculate_cost_keys_distinct:
  "distinct (map fst ms) \<Longrightarrow>
   map fst (fst (calculate_cost g ms)) =
   map fst (filter (\<lambda>(material, q). map_of (MATERIAL_RATES g) material \<noteq> None) ms)"
proof -
  assume "distinct (map fst ms)"
  then have "fst (calculate_cost g ms) = breakdown_items g ms"
    by (simp add: calculate_cost_def loop_breakdown)
  moreover have "map fst (breakdown_items g ms) =
    map fst (filter (\<lambda>(material, q). map_of (MATERIAL_RATES g) material \<noteq> None) ms)"
    by (induction ms) (auto simp: breakdown_items_def split: option.splits)
  ultimately show ?thesis by simp
qed

subsection \<open>The handler and the tables of the module\<close>

lemma apply_wastage_keys: "map fst (apply_wastage p ms) = map fst ms"
  by (induction ms) (auto simp: apply_wastage_def)

lemma run_calculation_fields:
  "area (run_calculation g l w c b p) = snd (calculate_materials g l w c)"
  "materials (run_calculation g l w c b p) = apply_wastage p (fst (calculate_materials g l w c))"
  "cost_breakdown (run_calculation g l w c b p) =
     fst (calculate_cost g (apply_wastage p (fst (calculate_materials g l w c))))"
  "material_cost (run_calculation g l w c b p) =
     snd (calculate_cost g (apply_wastage p (fst (calculate_materials g l w c))))"
  "labor_cost (run_calculation g l w c b p) =
     (if b then material_cost (run_calculation g l w c b p) * 0.3 else 0)"
  "total_cost (run_calculation g l w c b p) =
     material_cost (run_calculation g l w c b p) + labor_cost (run_calculation g l w c b p)"
  by (simp_all add: run_calculation_def Let_def split: prod.splits)

lemma default_materials:
  "fst (calculate_materials module_globals l w c) =
     map (\<lambda>(m, q). (m, q * (l * w / 100)))
       (case map_of (CONSTRUCTION_COEFFICIENTS module_globals) c of None \<Rightarrow> [] | Some cs \<Rightarrow> cs)"
  by (simp add: calculate_materials_def module_globals_def Let_def)

lemma default_profiles_priced:
  "list_all (\<lambda>(c, coeffs). list_all (\<lambda>(m, q). map_of (MATERIAL_RATES module_globals) m \<noteq> None) coeffs
       \<and> distinct (map fst coeffs))
     (CONSTRUCTION_COEFFICIENTS module_globals)"
  by (simp add: module_globals_def)

lemma default_profile:
  assumes "map_of (CONSTRUCTION_COEFFICIENTS module_globals) c = Some coeffs"
  shows "list_all (\<lambda>(m, q). map_of (MATERIAL_RATES module_globals) m \<noteq> None) coeffs"
    and "distinct (map fst coeffs)"
proof -
  from assms have "(c, coeffs) \<in> set (CONSTRUCTION_COEFFICIENTS module_globals)"
    by (rule map_of_SomeD)
  with default_profiles_priced show
    "list_all (\<lambda>(m, q). map_of (MATERIAL_RATES module_globals) m \<noteq> None) coeffs"
    "distinct (map fst coeffs)"
    by (auto simp: list_all_iff)
qed

lemma default_no_drop:
  "map fst (cost_breakdown (run_calculation module_globals l w c b p)) =
   map fst (materials (run_calculation module_globals l w c b p))"
proof (cases "map_of (CONSTRUCTION_COEFFICIENTS module_globals) c")
  case None
  then show ?thesis
    by (simp add: run_calculation_fields default_materials apply_wastage_def calculate_cost_def)
next
  case (Some coeffs)
  let ?ms = "apply_wastage p (fst (calculate_materials module_globals l w c))"
  have keys: "map fst ?ms = map fst coeffs"
    by (simp add: apply_wastage_keys default_materials Some comp_def case_prod_unfold)
  have d: "distinct (map fst ?ms)"
    using default_profile(2) [OF Some] by (simp only: keys)
  have "\<forall>x \<in> set ?ms. map_of (MATERIAL_RATES module_globals) (fst x) \<noteq> None"
  proof
    fix x assume "x \<in> set ?ms"
    then have "fst x \<in> set (map fst coeffs)" unfolding keys [symmetric] by simp
    then obtain y where "y \<in> set coeffs" "fst y = fst x" by auto
    with default_profile(1) [OF Some] show "map_of (MATERIAL_RATES module_globals) (fst x) \<noteq> None"
      by (auto simp: list_all_iff)
  qed
  then have "filter (\<lambda>(material, q). map_of (MATERIAL_RATES module_globals) material \<noteq> None) ?ms = ?ms"
    by (auto simp: filter_id_conv)
  with calculate_cost_keys_distinct [OF d, of module_globals] show ?thesis
    by (simp add: run_calculation_fields)
qed

subsection \<open>The unknown construction type\<close>

text \<open>
  C8. For a construction type that is not a key of the coefficient table,
  \<open>calculate_materials\<close> returns the empty materials map and the area
  \<open>length * width\<close>, and \<open>calculate_cost\<close> of that map returns the empty breakdown
  and the total 0. Both functions return plain values: the path has no raising branch.
\<close>

theorem unknown_type_empty:
  assumes "construction_type \<notin> fst ` set (CONSTRUCTION_COEFFICIENTS g)"
  shows "calculate_materials g length_ft width_ft construction_type = ([], length_ft * width_ft)
       \<and> calculate_cost g (fst (calculate_materials g length_ft width_ft construction_type)) = ([], 0)"
proof -
  from assms have "map_of (CONSTRUCTION_COEFFICIENTS g) construction_type = None"
    by (simp add: map_of_eq_None_iff)
  then have "calculate_materials g length_ft width_ft construction_type = ([], length_ft * width_ft)"
    by (simp add: calculate_materials_def)
  then show ?thesis
    by (simp add: calculate_cost_def)
qed

theorem unknown_type_empty_witness:
  "''Unknown'' \<notin> fst ` set (CONSTRUCTION_COEFFICIENTS module_globals)
   \<and> calculate_materials module_globals 17 70 ''Unknown'' = ([], 17 * 70)
   \<and> calculate_cost module_globals (fst (calculate_materials module_globals 17 70 ''Unknown'')) = ([], 0)"
proof -
  have h: "''Unknown'' \<notin> fst ` set (CONSTRUCTION_COEFFICIENTS module_globals)"
    by (simp add: module_globals_def)
  show ?thesis
    using h unknown_type_empty [OF h, of 17 70] by auto
qed

subsection \<open>Materials without a rate\<close>

text \<open>
  C5. For every materials map, \<open>calculate_cost\<close> gives the same breakdown and the same
  total as on the map without the materials that have no entry in the rate table, and
  the keys of the breakdown are exactly the materials of the map that have a rate: an
  unpriced material is left out and adds nothing to the total. \<open>calculate_cost\<close> returns
  a plain pair, so no error is raised for it. With the tables of the module every
  material of every construction profile has a rate, and the breakdown of a calculation
  has the same materials, in the same order, as the materials map.
\<close>

theorem unpriced_material_dropped:
  "calculate_cost g ms =
     calculate_cost g (filter (\<lambda>(material, q). map_of (MATERIAL_RATES g) material \<noteq> None) ms)
   \<and> fst ` set (fst (calculate_cost g ms)) =
       {m \<in> fst ` set ms. map_of (MATERIAL_RATES g) m \<noteq> None}
   \<and> list_all (\<lambda>(c, coeffs).
          list_all (\<lambda>(m, q). map_of (MATERIAL_RATES module_globals) m \<noteq> None) coeffs)
        (CONSTRUCTION_COEFFICIENTS module_globals)
   \<and> map fst (cost_breakdown (run_calculation module_globals l w c b p)) =
       map fst (materials (run_calculation module_globals l w c b p))"
proof -
  have a: "calculate_cost g ms =
     calculate_cost g (filter (\<lambda>(material, q). map_of (MATERIAL_RATES g) material \<noteq> None) ms)"
    unfolding calculate_cost_def by (rule loop_filter)
  have b: "fst ` set (fst (calculate_cost g ms)) =
       {m \<in> fst ` set ms. map_of (MATERIAL_RATES g) m \<noteq> None}"
    by (simp add: calculate_cost_def loop_keys)
  have c: "list_all (\<lambda>(c, coeffs).
          list_all (\<lambda>(m, q). map_of (MATERIAL_RATES module_globals) m \<noteq> None) coeffs)
        (CONSTRUCTION_COEFFICIENTS module_globals)"
    by (simp add: module_globals_def)
  show ?thesis
    by (intro conjI) (rule a, rule b, rule c, rule default_no_drop)
qed

theorem unpriced_material_dropped_witness:
  "calculate_cost module_globals [(''cement'', 2), (''gold'', 5)] =
     calculate_cost module_globals [(''cement'', 2)]
   \<and> calculate_cost module_globals [(''cement'', 2), (''gold'', 5)] =
       ([(''cement'', \<lparr>rate = 400, unit = ''per bag'', quantity = 2, cost = 800\<rparr>)], 800)
   \<and> ''gold'' \<notin> fst ` set (fst (calculate_cost module_globals [(''cement'', 2), (''gold'', 5)]))
   \<and> map fst (cost_breakdown (run_calculation module_globals 17 70 ''RCC Slab (4 inch)'' True 5)) =
       [''cement'', ''steel'', ''sand'', ''aggregate_20mm'']"
proof -
  have f: "filter (\<lambda>(material, q). map_of (MATERIAL_RATES module_globals) material \<noteq> None)
             [(''cement'', 2 :: rat), (''gold'', 5)] = [(''cement'', 2)]"
    by (simp add: module_globals_def)
  have gold: "map_of (MATERIAL_RATES module_globals) ''gold'' = None"
    by (simp add: module_globals_def)
  have v: "calculate_cost module_globals [(''cement'', 2)] =
       ([(''cement'', \<lparr>rate = 400, unit = ''per bag'', quantity = 2, cost = 800\<rparr>)], 800)"
    by code_simp
  have k: "map fst (materials (run_calculation module_globals 17 70 ''RCC Slab (4 inch)'' True 5)) =
       [''cement'', ''steel'', ''sand'', ''aggregate_20mm'']"
    by code_simp
  note t = unpriced_material_dropped
    [of module_globals "[(''cement'', 2), (''gold'', 5)]" 17 70 "''RCC Slab (4 inch)''" True 5]
  from t have t1: "calculate_cost module_globals [(''cement'', 2), (''gold'', 5)] =
     calculate_cost module_globals
       (filter (\<lambda>(material, q). map_of (MATERIAL_RATES module_globals) material \<noteq> None)
          [(''cement'', 2), (''gold'', 5)])"
    by (rule conjunct1)
  from t have t2: "fst ` set (fst (calculate_cost module_globals [(''cement'', 2), (''gold'', 5)])) =
       {m \<in> fst ` set [(''cement'', 2 :: rat), (''gold'', 5)].
          map_of (MATERIAL_RATES module_globals) m \<noteq> None}"
    by (rule conjunct1 [OF conjunct2])
  from t have t4: "map fst (cost_breakdown (run_calculation module_globals 17 70 ''RCC Slab (4 inch)'' True 5)) =
       map fst (materials (run_calculation module_globals 17 70 ''RCC Slab (4 inch)'' True 5))"
    by (rule conjunct2 [OF conjunct2 [OF conjunct2]])
  from t1 have 1: "calculate_cost module_globals [(''cement'', 2), (''gold'', 5)] =
     calculate_cost module_globals [(''cement'', 2)]"
    by (simp only: f)
  have 2: "''gold'' \<notin> fst ` set (fst (calculate_cost module_globals [(''cement'', 2), (''gold'', 5)]))"
    unfolding t2 using gold by simp
  from t4 have 3: "map fst (cost_breakdown (run_calculation module_globals 17 70 ''RCC Slab (4 inch)'' True 5)) =
       [''cement'', ''steel'', ''sand'', ''aggregate_20mm'']"
    by (simp only: k)
  from 1 2 3 v show ?thesis
    by (simp only: simp_thms)
qed

subsection \<open>Material cost and the rounded breakdown\<close>

text \<open>
  C3, as amended. For a materials map with distinct keys, the total returned by
  \<open>calculate_cost\<close> is the sum of the unrounded line costs \<open>quantity * rate\<close> of the
  priced materials, while the breakdown it returns stores each cost rounded to two
  decimals by \<open>calculate_cost\<close> itself; the sum of the stored costs differs from the
  total by at most 0.005 for each line item.
\<close>

theorem material_cost_full_precision:
  assumes "distinct (map fst ms)"
  shows "snd (calculate_cost g ms) = sum_list (map snd (line_costs g ms))
       \<and> map fst (fst (calculate_cost g ms)) = map fst (line_costs g ms)
       \<and> map (cost \<circ> snd) (fst (calculate_cost g ms)) = map (\<lambda>(m, c). py_round c 2) (line_costs g ms)
       \<and> \<bar>sum_list (map (cost \<circ> snd) (fst (calculate_cost g ms))) - snd (calculate_cost g ms)\<bar>
           \<le> of_nat (length (fst (calculate_cost g ms))) / 200"
proof -
  have total: "snd (calculate_cost g ms) = sum_list (map snd (line_costs g ms))"
    by (simp add: calculate_cost_def loop_total)
  from assms have bd: "fst (calculate_cost g ms) = breakdown_items g ms"
    by (simp add: calculate_cost_def loop_breakdown)
  have len: "length (breakdown_items g ms) = length (line_costs g ms)"
    using breakdown_items_keys [of g ms] by (metis length_map)
  show ?thesis
    using sum_list_round_error [of "line_costs g ms"]
    by (simp only: total bd breakdown_items_costs breakdown_items_keys len simp_thms)
qed

theorem material_cost_full_precision_witness:
  "distinct (map fst [(''cement'', 18.7425 :: rat), (''sand'', 1.87425)])
   \<and> snd (calculate_cost module_globals [(''cement'', 18.7425), (''sand'', 1.87425)]) = 7497 + 2811.375
   \<and> map fst (fst (calculate_cost module_globals [(''cement'', 18.7425), (''sand'', 1.87425)])) =
       [''cement'', ''sand'']
   \<and> map (cost \<circ> snd) (fst (calculate_cost module_globals [(''cement'', 18.7425), (''sand'', 1.87425)])) =
       [7497, 2811.38]
   \<and> \<bar>sum_list (map (cost \<circ> snd)
          (fst (calculate_cost module_globals [(''cement'', 18.7425), (''sand'', 1.87425)])))
        - snd (calculate_cost module_globals [(''cement'', 18.7425), (''sand'', 1.87425)])\<bar> \<le> 2 / 200"
proof -
  let ?ms = "[(''cement'', 18.7425 :: rat), (''sand'', 1.87425)]"
  have d: "distinct (map fst ?ms)" by simp
  have lc: "line_costs module_globals ?ms = [(''cement'', 7497), (''sand'', 2811.375)]"
    by code_simp
  have rs: "map (\<lambda>(m, c). py_round c 2) [(''cement'', 7497), (''sand'', 2811.375)] =
      [7497, 2811.38]"
    by code_simp
  note t = material_cost_full_precision [OF d, of module_globals]
  from t have t1: "snd (calculate_cost module_globals ?ms) = sum_list (map snd (line_costs module_globals ?ms))"
    by (rule conjunct1)
  from t have t2: "map fst (fst (calculate_cost module_globals ?ms)) = map fst (line_costs module_globals ?ms)"
    by (rule conjunct1 [OF conjunct2])
  from t have t3: "map (cost \<circ> snd) (fst (calculate_cost module_globals ?ms)) =
      map (\<lambda>(m, c). py_round c 2) (line_costs module_globals ?ms)"
    by (rule conjunct1 [OF conjunct2 [OF conjunct2]])
  from t have t4: "\<bar>sum_list (map (cost \<circ> snd) (fst (calculate_cost module_globals ?ms)))
        - snd (calculate_cost module_globals ?ms)\<bar>
      \<le> of_nat (length (fst (calculate_cost module_globals ?ms))) / 200"
    by (rule conjunct2 [OF conjunct2 [OF conjunct2]])
  have len: "length (fst (calculate_cost module_globals ?ms)) = 2"
    using t2 lc by (metis length_map list.size(3,4) One_nat_def Suc_eq_plus1 one_add_one)
  have 1: "snd (calculate_cost module_globals ?ms) = 7497 + 2811.375"
    unfolding t1 lc by simp
  have 2: "map fst (fst (calculate_cost module_globals ?ms)) = [''cement'', ''sand'']"
    unfolding t2 lc by simp
  have 3: "map (cost \<circ> snd) (fst (calculate_cost module_globals ?ms)) = [7497, 2811.38]"
    unfolding t3 lc by (rule rs)
  from t4 have 4: "\<bar>sum_list (map (cost \<circ> snd) (fst (calculate_cost module_globals ?ms)))
        - snd (calculate_cost module_globals ?ms)\<bar> \<le> 2 / 200"
    by (simp only: len of_nat_numeral)
  from d 1 2 3 4 show ?thesis by (intro conjI)
qed

text \<open>
  C3 as stated fails on the code. For length 17, width 70, "Plaster (12mm)", wastage 5
  the returned breakdown stores the costs 7497 and 2811.38, whose sum is 10308.38, while
  the returned material cost is 10308.375: they differ by 0.005.
\<close>

theorem breakdown_sum_differs:
  "sum_list (map (cost \<circ> snd)
      (cost_breakdown (run_calculation module_globals 17 70 ''Plaster (12mm)'' True 5))) = 10308.38
   \<and> material_cost (run_calculation module_globals 17 70 ''Plaster (12mm)'' True 5) = 10308.375"
proof (intro conjI)
  show "sum_list (map (cost \<circ> snd)
      (cost_breakdown (run_calculation module_globals 17 70 ''Plaster (12mm)'' True 5))) = 10308.38"
    by code_simp
  show "material_cost (run_calculation module_globals 17 70 ''Plaster (12mm)'' True 5) = 10308.375"
    by code_simp
qed

subsection \<open>The plaster scenario\<close>

text \<open>
  C1. For length 17, width 70, construction type "Plaster (12mm)", wastage 5 and labor
  included: the area is 1190; the raw quantities are 17.85 (cement) and 1.785 (sand); the
  quantities after wastage are 18.7425 and 1.87425; their line costs \<open>quantity * rate\<close>
  are 7497 and 2811.375; the material cost is 10308.375, the labor cost 3092.5125, the
  total cost 13400.8875, and the cost per square foot 11.26125, which is 11.26 to two
  decimals. (The breakdown stores quantity and cost rounded to two decimals.)
\<close>

theorem plaster_scenario:
  "calculate_materials module_globals 17 70 ''Plaster (12mm)'' =
     ([(''cement'', 17.85), (''sand'', 1.785)], 1190)
   \<and> run_calculation module_globals 17 70 ''Plaster (12mm)'' True 5 =
     \<lparr>area = 1190,
      materials = [(''cement'', 18.7425), (''sand'', 1.87425)],
      cost_breakdown =
        [(''cement'', \<lparr>rate = 400, unit = ''per bag'', quantity = 18.74, cost = 7497\<rparr>),
         (''sand'', \<lparr>rate = 1500, unit = ''per cum'', quantity = 1.87, cost = 2811.38\<rparr>)],
      material_cost = 10308.375, labor_cost = 3092.5125, total_cost = 13400.8875\<rparr>
   \<and> line_costs module_globals [(''cement'', 18.7425), (''sand'', 1.87425)] =
     [(''cement'', 7497), (''sand'', 2811.375)]
   \<and> estimate module_globals 17 70 ''Plaster (12mm)'' True 5 =
     Inr \<lparr>costs = run_calculation module_globals 17 70 ''Plaster (12mm)'' True 5,
          cost_per_sqft = 11.26125\<rparr>
   \<and> py_round 11.26125 2 = 11.26"
proof (intro conjI)
  show "calculate_materials module_globals 17 70 ''Plaster (12mm)'' =
     ([(''cement'', 17.85), (''sand'', 1.785)], 1190)"
    by code_simp
  show "run_calculation module_globals 17 70 ''Plaster (12mm)'' True 5 =
     \<lparr>area = 1190,
      materials = [(''cement'', 18.7425), (''sand'', 1.87425)],
      cost_breakdown =
        [(''cement'', \<lparr>rate = 400, unit = ''per bag'', quantity = 18.74, cost = 7497\<rparr>),
         (''sand'', \<lparr>rate = 1500, unit = ''per cum'', quantity = 1.87, cost = 2811.38\<rparr>)],
      material_cost = 10308.375, labor_cost = 3092.5125, total_cost = 13400.8875\<rparr>"
    by code_simp
  show "line_costs module_globals [(''cement'', 18.7425), (''sand'', 1.87425)] =
     [(''cement'', 7497), (''sand'', 2811.375)]"
    by code_simp
  show "estimate module_globals 17 70 ''Plaster (12mm)'' True 5 =
     Inr \<lparr>costs = run_calculation module_globals 17 70 ''Plaster (12mm)'' True 5,
          cost_per_sqft = 11.26125\<rparr>"
    by code_simp
  show "py_round 11.26125 2 = 11.26"
    by code_simp
qed

subsection \<open>The area and the quotient of line 193\<close>

lemma estimate_nonzero_area:
  "area (run_calculation g l w c b p) \<noteq> 0 \<Longrightarrow>
   estimate g l w c b p =
     Inr \<lparr>costs = run_calculation g l w c b p,
          cost_per_sqft = total_cost (run_calculation g l w c b p) / area (run_calculation g l w c b p)\<rparr>"
  by (simp add: estimate_def Let_def)

lemma run_calculation_area: "area (run_calculation g l w c b p) = l * w"
  by (simp add: run_calculation_fields calculate_materials_def Let_def)

subsection \<open>Requests the estimate does not reject\<close>

text \<open>
  C2 fails on the code: no function of the module checks its arguments, and the handler
  computes a result for a construction type that is not a key of the coefficient table.
\<close>

theorem unknown_type_returns_result:
  "estimate module_globals 17 70 ''Unknown'' True 5 =
     Inr \<lparr>costs = \<lparr>area = 1190, materials = [], cost_breakdown = [],
                   material_cost = 0, labor_cost = 0, total_cost = 0\<rparr>,
          cost_per_sqft = 0\<rparr>"
  by code_simp

text \<open>
  C2, as amended. The estimate validates nothing: for every request whose area
  \<open>length * width\<close> is not zero, whatever the signs of length and width, the wastage
  percentage and the construction type, it returns a result, the calculation of lines
  132-142 together with the cost per square foot. (The widgets of lines 112-125 are what
  keeps length and width at 1.0 or more, the wastage between 0 and 20 and the type among
  the keys of the table.)
\<close>

theorem estimate_without_validation:
  assumes "l * w \<noteq> 0"
  shows "estimate g l w c b p =
           Inr \<lparr>costs = run_calculation g l w c b p,
                cost_per_sqft = total_cost (run_calculation g l w c b p)
                                / area (run_calculation g l w c b p)\<rparr>
       \<and> area (run_calculation g l w c b p) = l * w"
proof -
  from assms have "area (run_calculation g l w c b p) \<noteq> 0"
    by (simp add: run_calculation_area)
  from estimate_nonzero_area [OF this] show ?thesis
    by (simp add: run_calculation_area)
qed

theorem estimate_without_validation_witness:
  "(10 :: rat) * (- 5) \<noteq> 0
   \<and> estimate module_globals 10 (- 5) ''Plaster (12mm)'' True 21 =
       Inr \<lparr>costs = run_calculation module_globals 10 (- 5) ''Plaster (12mm)'' True 21,
            cost_per_sqft = 12.97725\<rparr>
   \<and> run_calculation module_globals 10 (- 5) ''Plaster (12mm)'' True 21 =
       \<lparr>area = - 50,
        materials = [(''cement'', - 0.9075), (''sand'', - 0.09075)],
        cost_breakdown =
          [(''cement'', \<lparr>rate = 400, unit = ''per bag'', quantity = - 0.91, cost = - 363\<rparr>),
           (''sand'', \<lparr>rate = 1500, unit = ''per cum'', quantity = - 0.09, cost = - 136.12\<rparr>)],
        material_cost = - 499.125, labor_cost = - 149.7375, total_cost = - 648.8625\<rparr>"
proof -
  have nz: "(10 :: rat) * (- 5) \<noteq> 0" by simp
  have v: "run_calculation module_globals 10 (- 5) ''Plaster (12mm)'' True 21 =
       \<lparr>area = - 50,
        materials = [(''cement'', - 0.9075), (''sand'', - 0.09075)],
        cost_breakdown =
          [(''cement'', \<lparr>rate = 400, unit = ''per bag'', quantity = - 0.91, cost = - 363\<rparr>),
           (''sand'', \<lparr>rate = 1500, unit = ''per cum'', quantity = - 0.09, cost = - 136.12\<rparr>)],
        material_cost = - 499.125, labor_cost = - 149.7375, total_cost = - 648.8625\<rparr>"
    by code_simp
  have q: "total_cost (run_calculation module_globals 10 (- 5) ''Plaster (12mm)'' True 21)
           / area (run_calculation module_globals 10 (- 5) ''Plaster (12mm)'' True 21) = 12.97725"
    unfolding v by simp
  from estimate_without_validation [OF nz, of module_globals "''Plaster (12mm)''" True 21]
  have "estimate module_globals 10 (- 5) ''Plaster (12mm)'' True 21 =
       Inr \<lparr>costs = run_calculation module_globals 10 (- 5) ''Plaster (12mm)'' True 21,
            cost_per_sqft = total_cost (run_calculation module_globals 10 (- 5) ''Plaster (12mm)'' True 21)
           / area (run_calculation module_globals 10 (- 5) ''Plaster (12mm)'' True 21)\<rparr>"
    by (rule conjunct1)
  then have e: "estimate module_globals 10 (- 5) ''Plaster (12mm)'' True 21 =
       Inr \<lparr>costs = run_calculation module_globals 10 (- 5) ''Plaster (12mm)'' True 21,
            cost_per_sqft = 12.97725\<rparr>"
    by (simp only: q)
  from nz e v show ?thesis by (intro conjI)
qed

subsection \<open>Labor cost\<close>

text \<open>
  C4. For every request the labor cost is 0 when labor is not included and 0.30 times
  the material cost when it is, and the total cost is the material cost plus the labor
  cost in both cases.
\<close>

theorem labor_cost_rule:
  "labor_cost (run_calculation g l w c include_labor p) =
     (if include_labor then 0.30 * material_cost (run_calculation g l w c include_labor p) else 0)
   \<and> total_cost (run_calculation g l w c include_labor p) =
       material_cost (run_calculation g l w c include_labor p)
       + labor_cost (run_calculation g l w c include_labor p)
   \<and> labor_cost (run_calculation g l w c False p) = 0
   \<and> labor_cost (run_calculation g l w c True p) = 0.30 * material_cost (run_calculation g l w c True p)"
  by (simp add: run_calculation_fields)

subsection \<open>Positive area\<close>



subsection \<open>Monotone quantities\<close>







text \<open>
  The strict growth is of the materials map. The \<open>quantity\<close> a breakdown entry stores
  is that quantity rounded to two decimals, and two different quantities can round to
  the same number: for 1 ft by 1 ft of plaster the stored quantities are 0.02 and 0 at
  wastage 1 and at wastage 2.
\<close>

lemma stored_quantity_rounded:
  "map (\<lambda>(m, e). (m, quantity e))
     (cost_breakdown (run_calculation module_globals 1 1 ''Plaster (12mm)'' True 1)) =
     [(''cement'', 0.02), (''sand'', 0)]
   \<and> map (\<lambda>(m, e). (m, quantity e))
     (cost_breakdown (run_calculation module_globals 1 1 ''Plaster (12mm)'' True 2)) =
     [(''cement'', 0.02), (''sand'', 0)]"
proof (intro conjI)
  show "map (\<lambda>(m, e). (m, quantity e))
     (cost_breakdown (run_calculation module_globals 1 1 ''Plaster (12mm)'' True 1)) =
     [(''cement'', 0.02), (''sand'', 0)]"
    by code_simp
  show "map (\<lambda>(m, e). (m, quantity e))
     (cost_breakdown (run_calculation module_globals 1 1 ''Plaster (12mm)'' True 2)) =
     [(''cement'', 0.02), (''sand'', 0)]"
    by code_simp
qed

subsection \<open>Suggestions\<close>

text \<open>
  C7. \<open>get_ai_suggestions\<close> returns a string in every case: the text of the provider
  when the body of the \<^verbatim>\<open>try\<close> returns, and the fallback
  "AI suggestions unavailable: " followed by the message of the exception when it raises.
  The estimate part of a handler run is the estimate itself, whatever the provider does.
\<close>

theorem suggestions_never_raise:
  "(case generate a c budget of
      Inl e \<Rightarrow> get_ai_suggestions generate a c budget = ''AI suggestions unavailable: '' @ e
    | Inr text \<Rightarrow> get_ai_suggestions generate a c budget = text)
   \<and> map_sum id fst (fst (on_calculate generate g l w c b p)) = estimate g l w c b p"
  by (simp add: get_ai_suggestions_def on_calculate_def split: sum.splits)

theorem suggestions_never_raise_witness:
  "get_ai_suggestions (\<lambda>a c b. Inl ''quota exceeded'') 1190 ''Plaster (12mm)'' 13400.8875 =
     ''AI suggestions unavailable: quota exceeded''
   \<and> map_sum id fst (fst (on_calculate (\<lambda>a c b. Inl ''quota exceeded'') module_globals
        17 70 ''Plaster (12mm)'' True 5)) =
      estimate module_globals 17 70 ''Plaster (12mm)'' True 5"
  using suggestions_never_raise [where generate = "\<lambda>a c b. Inl ''quota exceeded''"
      and a = 1190 and c = "''Plaster (12mm)''" and budget = "13400.8875"
      and g = module_globals and l = 17 and w = 70 and b = True and p = 5]
  by simp

subsection \<open>Determinism\<close>


end
